theory Spec2Isabelle
  imports Main "HOL-Library.AList"
begin

section \<open>The Onboardbase client: data model\<close>

text \<open>
  A shallow embedding of \<^verbatim>\<open>pkg/provider/onboardbase/client/client.go\<close>.
  Go strings and byte slices are \<open>string\<close> (a list of bytes). A Go \<open>error\<close> value is
  represented by its message. Record fields keep the names of the Go struct fields; where
  two structs share a field name the later one carries a short prefix.
\<close>

type_synonym go_error = string

text \<open>
  \<^verbatim>\<open>url.URL\<close>, restricted to the string fields; the client reads and writes only
  \<open>Scheme\<close> and \<open>RawQuery\<close> and hands the value to the library otherwise.
\<close>

record url =
  Scheme :: string
  Opaque :: string
  Host :: string
  Path :: string
  RawQuery :: string
  Fragment :: string

text \<open>
  The client holds a pointer to its base URL, so URL values live in a store: an address is an
  index into the list of allocated URLs, and allocation appends.
\<close>

type_synonym addr = nat
type_synonym store = "url list"

record http_Client =
  Timeout_seconds :: nat
  DisableKeepAlives :: bool
  TLS_MinVersion :: nat

text \<open>A nil pointer is \<open>None\<close>.\<close>

record OnboardbaseClient =
  baseURL :: "addr option"
  OnboardbaseAPIKey :: string
  VerifyTLS :: bool
  UserAgent :: string
  OnboardbasePassCode :: string
  httpClient :: "http_Client option"

text \<open>
  \<open>queryParams\<close> and \<open>headers\<close> are Go maps that the client iterates over with
  \<open>range\<close>; they are association lists with distinct keys, the list order being the order
  in which \<open>range\<close> visits the entries. \<open>Secrets\<close> is only indexed, so it is a map; the
  nil map is \<open>None\<close>. A nil byte slice is \<open>None\<close> too.
\<close>

type_synonym queryParams = "(string \<times> string) list"
type_synonym headers = "(string \<times> string) list"
type_synonym httpRequestBody = "string option"
type_synonym Secrets = "(string \<rightharpoonup> string) option"

record RawSecret =
  Key :: string
  Value :: string

record APIError =
  Err :: "go_error option"
  Message :: string
  Data :: string

type_synonym http_Header = "string \<rightharpoonup> string list"

text \<open>
  \<^verbatim>\<open>http.Response\<close>: the status code, the header, and what \<^verbatim>\<open>io.ReadAll\<close>
  will return for the body.
\<close>

record http_Response =
  StatusCode :: int
  resp_Header :: http_Header
  resp_Body :: "go_error + string"

record apiResponse =
  HTTPResponse :: http_Response
  Body :: "string option"

record apiErrorResponse =
  Messages :: "string list"
  Success :: bool

record SecretRequest =
  Environment :: string
  Project :: string
  Name :: string

record SecretsRequest =
  all_Environment :: string
  all_Project :: string

record secretResponseBodyObject =
  Title :: string
  Id :: string

record secretResponseBodyData =
  data_Project :: secretResponseBodyObject
  data_Environment :: secretResponseBodyObject
  data_Team :: secretResponseBodyObject
  data_Secrets :: "string list"

record secretResponseBody =
  body_Data :: secretResponseBodyData
  body_Message :: string
  body_Status :: string

record SecretResponse =
  secret_Name :: string
  secret_Value :: string

record SecretsResponse =
  Secrets :: Secrets
  all_Body :: "string option"

datatype body_reader = BytesReader string | NoBody

record http_Request =
  Method :: string
  URL :: url
  Header :: http_Header
  req_Body :: body_reader

type_synonym url_Values = "(string \<times> string list) list"

section \<open>The library calls\<close>

text \<open>
  The functions of the Go standard library and of the decryption package that the client
  calls are parameters of the model, collected in one record. \<open>http_Do\<close> stands for the
  network: what \<^verbatim>\<open>httpClient.Do\<close> returns for a request.
\<close>

record env =
  url_Parse :: "string \<Rightarrow> go_error + url"
  url_String :: "url \<Rightarrow> string"
  url_ParseQuery :: "string \<Rightarrow> url_Values"
  Values_Encode :: "url_Values \<Rightarrow> string"
  http_NewRequest :: "string \<Rightarrow> string \<Rightarrow> body_reader \<Rightarrow> go_error + http_Request"
  CanonicalMIMEHeaderKey :: "string \<Rightarrow> string"
  http_Do :: "http_Client \<Rightarrow> http_Request \<Rightarrow> go_error + http_Response"
  aesdecrypt_Run :: "string \<Rightarrow> string \<Rightarrow> go_error + string"
  json_Unmarshal_RawSecret :: "string \<Rightarrow> go_error + RawSecret"
  json_Unmarshal_secretResponseBody :: "string \<Rightarrow> go_error + secretResponseBody"
  json_Unmarshal_apiErrorResponse :: "string \<Rightarrow> go_error + apiErrorResponse"

subsection \<open>Small library functions written out\<close>

definition HasPrefix :: "string \<Rightarrow> string \<Rightarrow> bool" where
  "HasPrefix s pre = (take (length pre) s = pre)"

definition HasSuffix :: "string \<Rightarrow> string \<Rightarrow> bool" where
  "HasSuffix s suf = (length suf \<le> length s \<and> drop (length s - length suf) s = suf)"

definition TrimSuffix :: "string \<Rightarrow> string \<Rightarrow> string" where
  "TrimSuffix s suf = (if HasSuffix s suf then take (length s - length suf) s else s)"

fun Join :: "string list \<Rightarrow> string \<Rightarrow> string" where
  "Join [] sep = []"
| "Join [x] sep = x"
| "Join (x # y # ys) sep = x @ sep @ Join (y # ys) sep"

text \<open>The verb \<^verbatim>\<open>%d\<close> of \<^verbatim>\<open>fmt\<close>: a decimal numeral, with a sign when negative.\<close>

fun decimal :: "nat \<Rightarrow> string" where
  "decimal n = (if n < 10 then [''0123456789'' ! n]
                else decimal (n div 10) @ [''0123456789'' ! (n mod 10)])"

definition fmt_d :: "int \<Rightarrow> string" where
  "fmt_d i = (if i < 0 then ''-'' @ decimal (nat (- i)) else decimal (nat i))"

text \<open>\<^verbatim>\<open>Header.Get\<close> and \<^verbatim>\<open>Header.Set\<close> work on the canonical form of the key.\<close>

definition Header_Get :: "env \<Rightarrow> http_Header \<Rightarrow> string \<Rightarrow> string" where
  "Header_Get E h key =
     (case h (CanonicalMIMEHeaderKey E key) of
        None \<Rightarrow> []
      | Some [] \<Rightarrow> []
      | Some (v # _) \<Rightarrow> v)"

definition Header_Set :: "env \<Rightarrow> http_Header \<Rightarrow> string \<Rightarrow> string \<Rightarrow> http_Header" where
  "Header_Set E h key v = h(CanonicalMIMEHeaderKey E key \<mapsto> [v])"

text \<open>\<^verbatim>\<open>Values.Add\<close> appends the value to the values of the key.\<close>

definition Values_Add :: "url_Values \<Rightarrow> string \<Rightarrow> string \<Rightarrow> url_Values" where
  "Values_Add q key v =
     AList.update key ((case map_of q key of None \<Rightarrow> [] | Some vs \<Rightarrow> vs) @ [v]) q"

text \<open>Indexing a Go map gives the zero value for a missing key, also on the nil map.\<close>

definition map_index :: "Secrets \<Rightarrow> string \<Rightarrow> string" where
  "map_index m k =
     (case m of
        None \<Rightarrow> []
      | Some kv \<Rightarrow> (case kv k of None \<Rightarrow> [] | Some v \<Rightarrow> v))"

definition bytes_of :: "string option \<Rightarrow> string" where
  "bytes_of b = (case b of None \<Rightarrow> [] | Some bs \<Rightarrow> bs)"

section \<open>The operations\<close>

subsection \<open>Construction and the base URL\<close>

text \<open>
  \<^verbatim>\<open>BaseURL\<close> copies the URL the client points to into a new variable and returns the
  address of that variable. Dereferencing nil panics: the result is \<open>None\<close>.
\<close>

definition BaseURL :: "store \<Rightarrow> OnboardbaseClient \<Rightarrow> (addr \<times> store) option" where
  "BaseURL s c =
     (case baseURL c of
        None \<Rightarrow> None
      | Some a \<Rightarrow> (if a < length s then Some (length s, s @ [s ! a]) else None))"

text \<open>
  \<^verbatim>\<open>SetBaseURL\<close>: the URL that \<^verbatim>\<open>url.Parse\<close> returns is a new object; the client's
  pointer is set to it.
\<close>

definition SetBaseURL ::
  "env \<Rightarrow> store \<Rightarrow> OnboardbaseClient \<Rightarrow> string \<Rightarrow> go_error + (OnboardbaseClient \<times> store)" where
  "SetBaseURL E s c urlStr =
     (case url_Parse E (TrimSuffix urlStr ''/'') of
        Inl err \<Rightarrow> Inl err
      | Inr parsed \<Rightarrow>
          (let u = (if Scheme parsed = [] then parsed\<lparr>Scheme := ''https''\<rparr> else parsed)
           in Inr (c\<lparr>baseURL := Some (length s)\<rparr>, s @ [u])))"

definition NewOnboardbaseClient ::
  "env \<Rightarrow> store \<Rightarrow> string \<Rightarrow> string \<Rightarrow> APIError + (OnboardbaseClient \<times> store)" where
  "NewOnboardbaseClient E s onboardbaseAPIKey onboardbasePasscode =
     (let client = \<lparr>baseURL = None,
                    OnboardbaseAPIKey = onboardbaseAPIKey,
                    VerifyTLS = True,
                    UserAgent = ''onboardbase-external-secrets'',
                    OnboardbasePassCode = onboardbasePasscode,
                    httpClient = Some \<lparr>Timeout_seconds = 10, DisableKeepAlives = True,
                                       TLS_MinVersion = 0x0303\<rparr>\<rparr>
      in case SetBaseURL E s client ''https://public.onboardbase.com/api/v1/'' of
           Inl err \<Rightarrow> Inl \<lparr>Err = Some err, Message = ''setting base URL failed'', Data = []\<rparr>
         | Inr cs \<Rightarrow> Inr cs)"

subsection \<open>Query parameters\<close>

definition buildQueryParams_Secrets :: "SecretsRequest \<Rightarrow> queryParams" where
  "buildQueryParams_Secrets r =
     (let params = [];
          params = (if all_Project r \<noteq> [] then AList.update ''project'' (all_Project r) params
                    else params);
          params = (if all_Environment r \<noteq> []
                    then AList.update ''environment'' (all_Environment r) params else params)
      in params)"

definition buildQueryParams :: "SecretRequest \<Rightarrow> queryParams" where
  "buildQueryParams r =
     (let params = [];
          params = (if Project r \<noteq> [] then AList.update ''project'' (Project r) params
                    else params);
          params = (if Environment r \<noteq> []
                    then AList.update ''environment'' (Environment r) params else params)
      in params)"

subsection \<open>Transport\<close>

definition isSuccess :: "int \<Rightarrow> bool" where
  "isSuccess statusCode =
     ((statusCode \<ge> 200 \<and> statusCode \<le> 299) \<or> (statusCode \<ge> 300 \<and> statusCode \<le> 399))"

text \<open>
  The first half of \<^verbatim>\<open>performRequest\<close>, up to the call of \<^verbatim>\<open>httpClient.Do\<close>: the
  request that is sent, or the error returned before anything is sent.
\<close>

definition performRequest_request ::
  "env \<Rightarrow> store \<Rightarrow> OnboardbaseClient \<Rightarrow> string \<Rightarrow> string \<Rightarrow> headers \<Rightarrow> queryParams \<Rightarrow>
     httpRequestBody \<Rightarrow> (APIError + http_Request) option" where
  "performRequest_request E s c path method hdrs params body =
     (case BaseURL s c of
        None \<Rightarrow> None
      | Some (p, s') \<Rightarrow>
          (let urlStr = url_String E (s' ! p) @ path in
           case url_Parse E urlStr of
             Inl err \<Rightarrow>
               Some (Inl \<lparr>Err = Some err, Message = ''invalid API URL: '' @ urlStr, Data = []\<rparr>)
           | Inr reqURL \<Rightarrow>
               (let bodyReader = (case body of Some b \<Rightarrow> BytesReader b | None \<Rightarrow> NoBody) in
                case http_NewRequest E method (url_String E reqURL) bodyReader of
                  Inl err \<Rightarrow>
                    Some (Inl \<lparr>Err = Some err, Message = ''unable to form HTTP request'',
                               Data = []\<rparr>)
                | Inr req \<Rightarrow>
                    (let h = Header req;
                         h = (if method = ''POST'' \<and> Header_Get E h ''content-type'' = []
                              then Header_Set E h ''content-type'' ''application/json'' else h);
                         h = (if Header_Get E h ''accept'' = []
                              then Header_Set E h ''accept'' ''application/json'' else h);
                         h = Header_Set E h ''user-agent'' (UserAgent c);
                         h = Header_Set E h ''api_key'' (OnboardbaseAPIKey c);
                         h = fold (\<lambda>(key, v) h. Header_Set E h key v) hdrs h;
                         query = url_ParseQuery E (RawQuery (URL req));
                         query = fold (\<lambda>(key, v) q. Values_Add q key v) params query
                     in Some (Inr (req\<lparr>Header := h,
                                       URL := (URL req)\<lparr>RawQuery := Values_Encode E query\<rparr>\<rparr>))))))"

text \<open>
  \<^verbatim>\<open>performRequest\<close> returns the Go pair (response, error); \<open>None\<close> is a panic (a nil
  base URL or a nil HTTP client, and in the callers a nil response without an error). After the body has been read \<open>err\<close> is nil, so the last
  test of the source never fires; it is kept as written.
\<close>

definition performRequest ::
  "env \<Rightarrow> store \<Rightarrow> OnboardbaseClient \<Rightarrow> string \<Rightarrow> string \<Rightarrow> headers \<Rightarrow> queryParams \<Rightarrow>
     httpRequestBody \<Rightarrow> (apiResponse option \<times> APIError option) option" where
  "performRequest E s c path method hdrs params body =
     (case performRequest_request E s c path method hdrs params body of
        None \<Rightarrow> None
      | Some (Inl e) \<Rightarrow> Some (None, Some e)
      | Some (Inr req) \<Rightarrow>
          (case httpClient c of
             None \<Rightarrow> None
           | Some hc \<Rightarrow>
               (case http_Do E hc req of
                  Inl err \<Rightarrow>
                    Some (None, Some \<lparr>Err = Some err, Message = ''unable to load response'',
                                       Data = []\<rparr>)
                | Inr r \<Rightarrow>
                    (case resp_Body r of
                       Inl err \<Rightarrow>
                         Some (Some \<lparr>HTTPResponse = r, Body = None\<rparr>,
                               Some \<lparr>Err = Some err,
                                     Message = ''unable to read entire response body'',
                                     Data = []\<rparr>)
                     | Inr bodyResponse \<Rightarrow>
                         (let response = \<lparr>HTTPResponse = r, Body = Some bodyResponse\<rparr>;
                              err = (None :: go_error option);
                              success = isSuccess (StatusCode r)
                          in if \<not> success then
                               (let contentType = Header_Get E (resp_Header r) ''content-type'' in
                                if HasPrefix contentType ''application/json'' then
                                  (case json_Unmarshal_apiErrorResponse E bodyResponse of
                                     Inl err \<Rightarrow>
                                       Some (Some response,
                                             Some \<lparr>Err = Some err,
                                                   Message = ''unable to unmarshal error JSON payload'',
                                                   Data = []\<rparr>)
                                   | Inr errResponse \<Rightarrow>
                                       Some (Some response,
                                             Some \<lparr>Err = None,
                                                   Message = Join (Messages errResponse) [CHR 0x0A],
                                                   Data = []\<rparr>))
                                else
                                  Some (None,
                                        Some \<lparr>Err = Some (fmt_d (StatusCode r) @ '' status code; ''
                                                         @ fmt_d (int (length bodyResponse))
                                                         @ '' bytes''),
                                              Message = ''unable to load response'', Data = []\<rparr>))
                             else if success \<and> err \<noteq> None then
                               Some (None,
                                     Some \<lparr>Err = err,
                                           Message = ''unable to load data from successful response'',
                                           Data = []\<rparr>)
                             else Some (Some response, None))))))"

definition Authenticate :: "env \<Rightarrow> store \<Rightarrow> OnboardbaseClient \<Rightarrow> APIError option option" where
  "Authenticate E s c =
     (case performRequest E s c ''/team/members'' ''GET'' [] [] (Some []) of
        None \<Rightarrow> None
      | Some (_, err) \<Rightarrow> Some err)"

subsection \<open>Secrets\<close>

text \<open>
  The loop of \<^verbatim>\<open>getSecretsFromPayload\<close> over the envelopes not yet visited, with the map
  built so far. An error leaves the loop with the nil map.
\<close>

fun getSecretsFromPayload_loop ::
  "env \<Rightarrow> OnboardbaseClient \<Rightarrow> string list \<Rightarrow> (string \<rightharpoonup> string) \<Rightarrow> Secrets \<times> APIError option" where
  "getSecretsFromPayload_loop E c [] kv = (Some kv, None)"
| "getSecretsFromPayload_loop E c (secret # rest) kv =
     (let passphrase = OnboardbasePassCode c in
      case aesdecrypt_Run E secret passphrase of
        Inl err \<Rightarrow>
          (None, Some \<lparr>Err = Some err, Message = ''unable to decrypt secret payload'',
                       Data = secret\<rparr>)
      | Inr decrypted \<Rightarrow>
          (case json_Unmarshal_RawSecret E decrypted of
             Inl err \<Rightarrow>
               (None, Some \<lparr>Err = Some err, Message = ''unable to unmarshal secret payload'',
                            Data = decrypted\<rparr>)
           | Inr decryptedJSON \<Rightarrow>
               getSecretsFromPayload_loop E c rest
                 (kv(Key decryptedJSON \<mapsto> Value decryptedJSON))))"

definition getSecretsFromPayload ::
  "env \<Rightarrow> OnboardbaseClient \<Rightarrow> secretResponseBodyData \<Rightarrow> Secrets \<times> APIError option" where
  "getSecretsFromPayload E c d = getSecretsFromPayload_loop E c (data_Secrets d) Map.empty"

definition GetSecret ::
  "env \<Rightarrow> store \<Rightarrow> OnboardbaseClient \<Rightarrow> SecretRequest \<Rightarrow>
     (SecretResponse option \<times> APIError option) option" where
  "GetSecret E s c request =
     (let params = buildQueryParams request in
      case performRequest E s c ''/secrets'' ''GET'' [] params (Some []) of
        None \<Rightarrow> None
      | Some (_, Some err) \<Rightarrow> Some (None, Some err)
      | Some (None, None) \<Rightarrow> None
      | Some (Some response, None) \<Rightarrow>
          (let body = Body response in
           case json_Unmarshal_secretResponseBody E (bytes_of body) of
             Inl err \<Rightarrow>
               Some (None, Some \<lparr>Err = Some err, Message = ''unable to unmarshal secret payload'',
                                  Data = bytes_of body\<rparr>)
           | Inr d \<Rightarrow>
               (let secrets = fst (getSecretsFromPayload E c (body_Data d));
                    secret = map_index secrets (Name request)
                in if secret = [] then
                     Some (None,
                           Some \<lparr>Err = None,
                                 Message = ''secret '' @ Name request @ '' for project '' @ [CHR 0x27]
                                   @ Project request @ [CHR 0x27] @ '' and environment ''
                                   @ [CHR 0x27] @ Environment request @ [CHR 0x27] @ '' not found'',
                                 Data = []\<rparr>)
                   else Some (Some \<lparr>secret_Name = Name request,
                                     secret_Value = map_index secrets (Name request)\<rparr>, None))))"

definition GetSecrets ::
  "env \<Rightarrow> store \<Rightarrow> OnboardbaseClient \<Rightarrow> SecretsRequest \<Rightarrow>
     (SecretsResponse option \<times> APIError option) option" where
  "GetSecrets E s c request =
     (let hdrs = [];
          params = buildQueryParams_Secrets request in
      case performRequest E s c ''/secrets'' ''GET'' hdrs params (Some []) of
        None \<Rightarrow> None
      | Some (_, Some apiErr) \<Rightarrow> Some (None, Some apiErr)
      | Some (None, None) \<Rightarrow> None
      | Some (Some response, None) \<Rightarrow>
          (let body = Body response in
           case json_Unmarshal_secretResponseBody E (bytes_of body) of
             Inl err \<Rightarrow>
               Some (None, Some \<lparr>Err = Some err, Message = ''unable to unmarshal secret payload'',
                                  Data = bytes_of body\<rparr>)
           | Inr d \<Rightarrow>
               (let secrets = fst (getSecretsFromPayload E c (body_Data d))
                in Some (Some \<lparr>Secrets = secrets, all_Body = body\<rparr>, None))))"

section \<open>A mock backend\<close>

text \<open>
  Concrete library functions for the examples: a URL parser and printer for the URLs of the
  default host, the canonical forms of the four header keys the client sets, a decryption
  table under the passcode \<open>p1\<close>, and tables for the JSON bodies used below. The backend
  answers every request with the response it is given.
\<close>

definition mock_url_Parse :: "string \<Rightarrow> go_error + url" where
  "mock_url_Parse str =
     (if HasPrefix str ''https://public.onboardbase.com''
      then Inr \<lparr>Scheme = ''https'', Opaque = [], Host = ''public.onboardbase.com'',
                Path = drop (length ''https://public.onboardbase.com'') str,
                RawQuery = [], Fragment = []\<rparr>
      else Inl ''unsupported URL'')"

definition mock_url_String :: "url \<Rightarrow> string" where
  "mock_url_String u =
     Scheme u @ ''://'' @ Host u @ Path u @ (if RawQuery u = [] then [] else ''?'' @ RawQuery u)"

definition mock_Values_Encode :: "url_Values \<Rightarrow> string" where
  "mock_Values_Encode q =
     Join (concat (map (\<lambda>(k, vs). map (\<lambda>v. k @ ''='' @ v) vs) q)) ''&''"

definition mock_http_NewRequest ::
  "string \<Rightarrow> string \<Rightarrow> body_reader \<Rightarrow> go_error + http_Request" where
  "mock_http_NewRequest method urlStr body =
     (case mock_url_Parse urlStr of
        Inl err \<Rightarrow> Inl err
      | Inr u \<Rightarrow> Inr \<lparr>Method = method, URL = u, Header = Map.empty, req_Body = body\<rparr>)"

definition mock_CanonicalMIMEHeaderKey :: "string \<Rightarrow> string" where
  "mock_CanonicalMIMEHeaderKey k =
     (if k = ''accept'' then ''Accept''
      else if k = ''content-type'' then ''Content-Type''
      else if k = ''user-agent'' then ''User-Agent''
      else if k = ''api_key'' then ''Api_key''
      else k)"

definition mock_aesdecrypt_Run :: "string \<Rightarrow> string \<Rightarrow> go_error + string" where
  \<open>mock_aesdecrypt_Run secret passphrase =
     (if passphrase \<noteq> ''p1'' then Inl ''bad passphrase''
      else if secret = ''enc1'' then Inr ''{"key":"DB_URL","value":"postgres://x"}''
      else if secret = ''enc2'' then Inr ''{"key":"TOKEN","value":"abc"}''
      else if secret = ''enc3'' then Inr ''not json''
      else if secret = ''enc4'' then Inr ''{"key":"DB_URL","value":"postgres://y"}''
      else Inl ''malformed ciphertext'')\<close>

definition mock_json_Unmarshal_RawSecret :: "string \<Rightarrow> go_error + RawSecret" where
  \<open>mock_json_Unmarshal_RawSecret b =
     (if b = ''{"key":"DB_URL","value":"postgres://x"}''
      then Inr \<lparr>Key = ''DB_URL'', Value = ''postgres://x''\<rparr>
      else if b = ''{"key":"TOKEN","value":"abc"}''
      then Inr \<lparr>Key = ''TOKEN'', Value = ''abc''\<rparr>
      else if b = ''{"key":"DB_URL","value":"postgres://y"}''
      then Inr \<lparr>Key = ''DB_URL'', Value = ''postgres://y''\<rparr>
      else Inl ''invalid character'')\<close>

definition mock_body :: "string list \<Rightarrow> secretResponseBody" where
  "mock_body secrets =
     \<lparr>body_Data = \<lparr>data_Project = \<lparr>Title = [], Id = []\<rparr>,
                    data_Environment = \<lparr>Title = [], Id = []\<rparr>,
                    data_Team = \<lparr>Title = [], Id = []\<rparr>,
                    data_Secrets = secrets\<rparr>,
      body_Message = [], body_Status = []\<rparr>"

definition mock_json_Unmarshal_secretResponseBody :: "string \<Rightarrow> go_error + secretResponseBody" where
  \<open>mock_json_Unmarshal_secretResponseBody b =
     (if b = ''{"data":{"secrets":[]}}'' then Inr (mock_body [])
      else if b = ''{"data":{"secrets":["enc1"]}}'' then Inr (mock_body [''enc1''])
      else if b = ''{"data":{"secrets":["enc1","enc2"]}}'' then Inr (mock_body [''enc1'', ''enc2''])
      else if b = ''{"data":{"secrets":["enc3"]}}'' then Inr (mock_body [''enc3''])
      else if b = ''{"data":{"secrets":["enc1","enc4"]}}'' then Inr (mock_body [''enc1'', ''enc4''])
      else Inl ''invalid character'')\<close>

definition mock_json_Unmarshal_apiErrorResponse :: "string \<Rightarrow> go_error + apiErrorResponse" where
  \<open>mock_json_Unmarshal_apiErrorResponse b =
     (if b = ''{"messages":["not found"],"success":false}''
      then Inr \<lparr>Messages = [''not found''], Success = False\<rparr>
      else Inl ''invalid character'')\<close>

definition mock_env :: "http_Response \<Rightarrow> env" where
  "mock_env r =
     \<lparr>url_Parse = mock_url_Parse,
      url_String = mock_url_String,
      url_ParseQuery = (\<lambda>_. []),
      Values_Encode = mock_Values_Encode,
      http_NewRequest = mock_http_NewRequest,
      CanonicalMIMEHeaderKey = mock_CanonicalMIMEHeaderKey,
      http_Do = (\<lambda>_ _. Inr r),
      aesdecrypt_Run = mock_aesdecrypt_Run,
      json_Unmarshal_RawSecret = mock_json_Unmarshal_RawSecret,
      json_Unmarshal_secretResponseBody = mock_json_Unmarshal_secretResponseBody,
      json_Unmarshal_apiErrorResponse = mock_json_Unmarshal_apiErrorResponse\<rparr>"

definition mock_response :: "int \<Rightarrow> string \<Rightarrow> string \<Rightarrow> http_Response" where
  "mock_response status contentType body =
     \<lparr>StatusCode = status, resp_Header = [''Content-Type'' \<mapsto> [contentType]],
      resp_Body = Inr body\<rparr>"

text \<open>The client and the store that the constructor returns on the empty store.\<close>

definition mock_store :: store where
  "mock_store =
     [\<lparr>Scheme = ''https'', Opaque = [], Host = ''public.onboardbase.com'', Path = ''/api/v1'',
       RawQuery = [], Fragment = []\<rparr>]"

definition mock_client :: "string \<Rightarrow> string \<Rightarrow> OnboardbaseClient" where
  "mock_client apiKey passcode =
     \<lparr>baseURL = Some 0, OnboardbaseAPIKey = apiKey, VerifyTLS = True,
      UserAgent = ''onboardbase-external-secrets'', OnboardbasePassCode = passcode,
      httpClient = Some \<lparr>Timeout_seconds = 10, DisableKeepAlives = True,
                         TLS_MinVersion = 0x0303\<rparr>\<rparr>"

definition mock_request :: "string \<Rightarrow> queryParams \<Rightarrow> http_Request" where
  "mock_request apiKey params =
     \<lparr>Method = ''GET'',
      URL = \<lparr>Scheme = ''https'', Opaque = [], Host = ''public.onboardbase.com'',
             Path = ''/api/v1/secrets'',
             RawQuery = mock_Values_Encode (fold (\<lambda>(key, v) q. Values_Add q key v) params []),
             Fragment = []\<rparr>,
      Header = [''Accept'' \<mapsto> [''application/json''],
                ''User-Agent'' \<mapsto> [''onboardbase-external-secrets''],
                ''Api_key'' \<mapsto> [apiKey]],
      req_Body = BytesReader []\<rparr>"

lemmas mock_defs =
  mock_url_Parse_def mock_url_String_def mock_Values_Encode_def mock_http_NewRequest_def
  mock_CanonicalMIMEHeaderKey_def mock_aesdecrypt_Run_def mock_json_Unmarshal_RawSecret_def
  mock_body_def mock_json_Unmarshal_secretResponseBody_def
  mock_json_Unmarshal_apiErrorResponse_def mock_env_def mock_response_def mock_store_def
  mock_client_def HasPrefix_def HasSuffix_def TrimSuffix_def

section \<open>Facts about the mock backend\<close>

lemma mock_NewOnboardbaseClient:
  "NewOnboardbaseClient (mock_env r) [] k p = Inr (mock_client k p, mock_store)"
  by (simp add: NewOnboardbaseClient_def SetBaseURL_def mock_defs)

lemma mock_performRequest_request:
  "performRequest_request (mock_env r) mock_store (mock_client k p) ''/secrets'' ''GET'' [] params
     (Some []) = Some (Inr (mock_request k params))"
  by (simp add: performRequest_request_def BaseURL_def Header_Get_def Header_Set_def
      mock_request_def mock_url_Parse_def mock_url_String_def mock_http_NewRequest_def
      mock_CanonicalMIMEHeaderKey_def mock_env_def mock_store_def mock_client_def HasPrefix_def)

lemma mock_performRequest_request_headers:
  "performRequest_request (mock_env r) mock_store (mock_client k p) ''/secrets'' ''GET'' hdrs params
     (Some [])
   = Some (Inr ((mock_request k params)
          \<lparr>Header := fold (\<lambda>(key, v) h. Header_Set (mock_env r) h key v) hdrs
                       (Header (mock_request k params))\<rparr>))"
  by (simp add: performRequest_request_def BaseURL_def Header_Get_def Header_Set_def
      mock_request_def mock_url_Parse_def mock_url_String_def mock_http_NewRequest_def
      mock_CanonicalMIMEHeaderKey_def mock_env_def mock_store_def mock_client_def HasPrefix_def)

lemma mock_httpClient:
  "httpClient (mock_client k p)
     = Some \<lparr>Timeout_seconds = 10, DisableKeepAlives = True, TLS_MinVersion = 0x0303\<rparr>"
  by (simp add: mock_client_def)

lemma mock_http_Do: "http_Do (mock_env r) hc req = Inr r"
  by (simp add: mock_env_def)

lemma mock_performRequest_ok:
  "performRequest (mock_env (mock_response 200 ct b)) mock_store (mock_client k p) ''/secrets''
     ''GET'' [] params (Some [])
   = Some (Some \<lparr>HTTPResponse = mock_response 200 ct b, Body = Some b\<rparr>, None)"
  by (simp add: performRequest_def mock_performRequest_request mock_httpClient mock_http_Do)
     (simp add: mock_response_def isSuccess_def)

section \<open>Transport: classification of the response\<close>

text \<open>
  C4. \<^verbatim>\<open>isSuccess\<close> holds exactly for the status codes from 200 to 399. When the request
  was sent and the body was read, \<^verbatim>\<open>performRequest\<close> returns the response without an
  error exactly for those codes, and returns an error exactly for the others.
\<close>

theorem performRequest_success_range:
  assumes "performRequest_request E s c path method hdrs params body = Some (Inr req)"
    and "httpClient c = Some hc"
    and "http_Do E hc req = Inr r"
    and "resp_Body r = Inr b"
  shows "isSuccess (StatusCode r) = (200 \<le> StatusCode r \<and> StatusCode r \<le> 399)
       \<and> (performRequest E s c path method hdrs params body
            = Some (Some \<lparr>HTTPResponse = r, Body = Some b\<rparr>, None))
         = (200 \<le> StatusCode r \<and> StatusCode r \<le> 399)
       \<and> (\<exists>resp e. performRequest E s c path method hdrs params body = Some (resp, Some e))
         = (\<not> (200 \<le> StatusCode r \<and> StatusCode r \<le> 399))"
proof -
  have ok: "isSuccess (StatusCode r) = (200 \<le> StatusCode r \<and> StatusCode r \<le> 399)"
    by (auto simp: isSuccess_def)
  have good: "(performRequest E s c path method hdrs params body
            = Some (Some \<lparr>HTTPResponse = r, Body = Some b\<rparr>, None))
         = (200 \<le> StatusCode r \<and> StatusCode r \<le> 399)"
    using assms ok by (simp add: performRequest_def Let_def split: sum.splits)
  have bad: "(\<exists>resp e. performRequest E s c path method hdrs params body = Some (resp, Some e))
         = (\<not> (200 \<le> StatusCode r \<and> StatusCode r \<le> 399))"
    using assms ok by (simp add: performRequest_def Let_def split: sum.splits)
  from ok good bad show ?thesis by blast
qed

theorem performRequest_success_range_witness:
  "performRequest (mock_env (mock_response 302 ''text/html'' ''moved'')) mock_store
     (mock_client ''k1'' ''p1'') ''/secrets'' ''GET'' [] [] (Some [])
   = Some (Some \<lparr>HTTPResponse = mock_response 302 ''text/html'' ''moved'',
                  Body = Some ''moved''\<rparr>, None)"
proof -
  have b: "resp_Body (mock_response 302 ''text/html'' ''moved'') = Inr ''moved''"
    by (simp add: mock_response_def)
  have st: "StatusCode (mock_response 302 ''text/html'' ''moved'') = 302"
    by (simp add: mock_response_def)
  from performRequest_success_range [OF mock_performRequest_request mock_httpClient mock_http_Do b]
  show ?thesis by (simp add: st)
qed

text \<open>
  C5. When the request was sent, the body was read, the status is not a success and the
  content type of the response does not start with \<open>application/json\<close>,
  \<^verbatim>\<open>performRequest\<close> returns no response and an error whose cause is the text
  "<status> status code; <length of the body> bytes", whose message is the fixed text
  "unable to load response" and whose data is empty: nothing of the body but its length.
\<close>

theorem performRequest_non_json_error:
  assumes "performRequest_request E s c path method hdrs params body = Some (Inr req)"
    and "httpClient c = Some hc"
    and "http_Do E hc req = Inr r"
    and "resp_Body r = Inr b"
    and "\<not> isSuccess (StatusCode r)"
    and "\<not> HasPrefix (Header_Get E (resp_Header r) ''content-type'') ''application/json''"
  shows "performRequest E s c path method hdrs params body
           = Some (None, Some \<lparr>Err = Some (fmt_d (StatusCode r) @ '' status code; ''
                                            @ fmt_d (int (length b)) @ '' bytes''),
                                Message = ''unable to load response'', Data = []\<rparr>)"
  using assms by (simp add: performRequest_def Let_def)

theorem performRequest_non_json_error_witness:
  "performRequest (mock_env (mock_response 500 ''text/html'' ''<html>oops</html>'')) mock_store
     (mock_client ''k1'' ''p1'') ''/secrets'' ''GET'' [] [] (Some [])
   = Some (None, Some \<lparr>Err = Some ''500 status code; 17 bytes'',
                        Message = ''unable to load response'', Data = []\<rparr>)"
proof -
  let ?r = "mock_response 500 ''text/html'' ''<html>oops</html>''"
  have b: "resp_Body ?r = Inr ''<html>oops</html>''"
    by (simp add: mock_response_def)
  have st: "\<not> isSuccess (StatusCode ?r)"
    by (simp add: mock_response_def isSuccess_def)
  have ct: "\<not> HasPrefix (Header_Get (mock_env ?r) (resp_Header ?r) ''content-type'')
               ''application/json''"
    by (simp add: mock_response_def Header_Get_def mock_env_def mock_CanonicalMIMEHeaderKey_def
        HasPrefix_def)
  from performRequest_non_json_error
         [OF mock_performRequest_request mock_httpClient mock_http_Do b st ct]
  show ?thesis by (simp add: mock_response_def fmt_d_def)
qed

section \<open>Query parameters\<close>

text \<open>
  C6. For a \<^verbatim>\<open>SecretRequest\<close> and for a \<^verbatim>\<open>SecretsRequest\<close>, the parameters built have
  the key \<open>project\<close> exactly when the project is not empty, with the project as its value,
  and the key \<open>environment\<close> exactly when the environment is not empty, with the environment
  as its value; there is no other key, and no key has the empty value.
\<close>

theorem buildQueryParams_omits_empty:
  "map_of (buildQueryParams r) ''project''
     = (if Project r = [] then None else Some (Project r))
   \<and> map_of (buildQueryParams r) ''environment''
     = (if Environment r = [] then None else Some (Environment r))
   \<and> dom (map_of (buildQueryParams r))
     = (if Project r = [] then {} else {''project''})
       \<union> (if Environment r = [] then {} else {''environment''})
   \<and> (\<forall>k. map_of (buildQueryParams r) k \<noteq> Some [])
   \<and> distinct (map fst (buildQueryParams r))
   \<and> map_of (buildQueryParams_Secrets q) ''project''
     = (if all_Project q = [] then None else Some (all_Project q))
   \<and> map_of (buildQueryParams_Secrets q) ''environment''
     = (if all_Environment q = [] then None else Some (all_Environment q))
   \<and> dom (map_of (buildQueryParams_Secrets q))
     = (if all_Project q = [] then {} else {''project''})
       \<union> (if all_Environment q = [] then {} else {''environment''})
   \<and> (\<forall>k. map_of (buildQueryParams_Secrets q) k \<noteq> Some [])
   \<and> distinct (map fst (buildQueryParams_Secrets q))"
  by (auto simp: buildQueryParams_def buildQueryParams_Secrets_def split: if_splits)

section \<open>The decryption loop\<close>

text \<open>
  When every envelope decrypts and every plaintext unmarshals, the loop returns the map built
  so far, overwritten by the records in list order.
\<close>

lemma map_of_records_find:
  "map_of (map (\<lambda>r. (Key r, Value r)) rs) k = map_option Value (find (\<lambda>r. Key r = k) rs)"
  by (induction rs) auto

lemma loop_all_decoded:
  assumes "list_all2 (\<lambda>secret r. \<exists>p. aesdecrypt_Run E secret (OnboardbasePassCode c) = Inr p
                        \<and> json_Unmarshal_RawSecret E p = Inr r) envs recs"
  shows "getSecretsFromPayload_loop E c envs kv
           = (Some (kv ++ map_of (rev (map (\<lambda>r. (Key r, Value r)) recs))), None)"
  using assms
proof (induction envs recs arbitrary: kv rule: list_all2_induct)
  case Nil
  then show ?case by simp
next
  case (Cons secret envs r recs)
  from Cons.hyps(1) obtain p where p: "aesdecrypt_Run E secret (OnboardbasePassCode c) = Inr p"
    "json_Unmarshal_RawSecret E p = Inr r" by blast
  have step: "getSecretsFromPayload_loop E c (secret # envs) kv
      = getSecretsFromPayload_loop E c envs (kv(Key r \<mapsto> Value r))"
    using p by simp
  have eq: "kv(Key r \<mapsto> Value r) ++ map_of (rev (map (\<lambda>r. (Key r, Value r)) recs))
      = kv ++ map_of (rev (map (\<lambda>r. (Key r, Value r)) (r # recs)))"
    by (auto simp: map_of_append map_add_def fun_eq_iff split: option.splits)
  show ?case
    unfolding step Cons.IH [of "kv(Key r \<mapsto> Value r)"] eq ..
qed

lemma map_of_rev_distinct: "distinct (map fst xs) \<Longrightarrow> map_of (rev xs) = map_of xs"
proof (induction xs)
  case Nil
  then show ?case by simp
next
  case (Cons x xs)
  then have "fst x \<notin> dom (map_of xs)" by (simp add: dom_map_of_conv_image_fst)
  then have "map_of xs (fst x) = None" by blast
  with Cons show ?case
    by (cases x) (auto simp: map_of_append fun_eq_iff map_add_def split: option.splits)
qed

text \<open>
  C10. When every envelope of the payload decrypts to a record, \<^verbatim>\<open>getSecretsFromPayload\<close>
  returns a map that gives each key the value of the last record with that key, in list
  order; the map has at most as many entries as there are envelopes.
\<close>

theorem getSecretsFromPayload_last_write_wins:
  assumes "list_all2 (\<lambda>secret r. \<exists>p. aesdecrypt_Run E secret (OnboardbasePassCode c) = Inr p
                        \<and> json_Unmarshal_RawSecret E p = Inr r) (data_Secrets d) recs"
  shows "\<exists>kv. getSecretsFromPayload E c d = (Some kv, None)
           \<and> (\<forall>k. kv k = map_option Value (find (\<lambda>r. Key r = k) (rev recs)))
           \<and> finite (dom kv) \<and> card (dom kv) \<le> length (data_Secrets d)"
proof -
  let ?kvs = "rev (map (\<lambda>r. (Key r, Value r)) recs)"
  have len: "length recs = length (data_Secrets d)"
    using assms by (simp add: list_all2_lengthD)
  have run: "getSecretsFromPayload E c d = (Some (map_of ?kvs), None)"
    using loop_all_decoded [OF assms, of Map.empty] by (simp add: getSecretsFromPayload_def)
  have look: "map_of ?kvs k = map_option Value (find (\<lambda>r. Key r = k) (rev recs))" for k
    using map_of_records_find [of "rev recs" k] by (simp add: rev_map)
  have "card (dom (map_of ?kvs)) \<le> length ?kvs"
    using card_image_le [of "set ?kvs" fst] card_length [of ?kvs]
    by (simp add: dom_map_of_conv_image_fst)
  then have card: "card (dom (map_of ?kvs)) \<le> length (data_Secrets d)"
    using len by simp
  from run look card show ?thesis by (simp add: finite_dom_map_of)
qed

theorem getSecretsFromPayload_last_write_wins_witness:
  "\<exists>kv. getSecretsFromPayload (mock_env (mock_response 200 ''application/json'' []))
           (mock_client ''k1'' ''p1'') (body_Data (mock_body [''enc1'', ''enc4'']))
         = (Some kv, None)
      \<and> kv ''DB_URL'' = Some ''postgres://y'' \<and> card (dom kv) \<le> 2"
proof -
  let ?E = "mock_env (mock_response 200 ''application/json'' [])"
  let ?c = "mock_client ''k1'' ''p1''"
  let ?recs = "[\<lparr>Key = ''DB_URL'', Value = ''postgres://x''\<rparr>,
                \<lparr>Key = ''DB_URL'', Value = ''postgres://y''\<rparr>]"
  have dec: "list_all2 (\<lambda>secret r. \<exists>p. aesdecrypt_Run ?E secret (OnboardbasePassCode ?c) = Inr p
                        \<and> json_Unmarshal_RawSecret ?E p = Inr r)
                (data_Secrets (body_Data (mock_body [''enc1'', ''enc4'']))) ?recs"
    by (simp add: mock_body_def mock_env_def mock_client_def mock_aesdecrypt_Run_def
        mock_json_Unmarshal_RawSecret_def)
  from getSecretsFromPayload_last_write_wins [OF dec]
  obtain kv where kv:
    "getSecretsFromPayload ?E ?c (body_Data (mock_body [''enc1'', ''enc4''])) = (Some kv, None)"
    "\<forall>k. kv k = map_option Value (find (\<lambda>r. Key r = k) (rev ?recs))"
    "card (dom kv) \<le> length (data_Secrets (body_Data (mock_body [''enc1'', ''enc4''])))"
    by blast
  from kv(2) have "kv ''DB_URL'' = Some ''postgres://y''" by simp
  moreover from kv(3) have "card (dom kv) \<le> 2" by (simp add: mock_body_def)
  ultimately show ?thesis using kv(1) by blast
qed

section \<open>Fetching secrets\<close>

text \<open>
  C7. When the request succeeds, the body parses, and the N envelopes decrypt to N records
  with distinct keys, \<^verbatim>\<open>GetSecrets\<close> returns without error the map of these records and
  the raw body; the map has exactly N entries and gives each key the value of its record.
  With no envelope the result is the empty map, again without error.
\<close>

theorem GetSecrets_distinct_keys:
  assumes perf: "performRequest E s c ''/secrets'' ''GET'' [] (buildQueryParams_Secrets request)
                   (Some []) = Some (Some response, None)"
    and parse: "json_Unmarshal_secretResponseBody E (bytes_of (Body response)) = Inr d"
    and dec: "list_all2 (\<lambda>secret r. \<exists>p. aesdecrypt_Run E secret (OnboardbasePassCode c) = Inr p
                        \<and> json_Unmarshal_RawSecret E p = Inr r) (data_Secrets (body_Data d)) recs"
    and dist: "distinct (map Key recs)"
  shows "GetSecrets E s c request
           = Some (Some \<lparr>Secrets = Some (map_of (map (\<lambda>r. (Key r, Value r)) recs)),
                          all_Body = Body response\<rparr>, None)
       \<and> card (dom (map_of (map (\<lambda>r. (Key r, Value r)) recs)))
           = length (data_Secrets (body_Data d))
       \<and> (\<forall>r \<in> set recs. map_of (map (\<lambda>r. (Key r, Value r)) recs) (Key r) = Some (Value r))"
proof -
  let ?kvs = "map (\<lambda>r. (Key r, Value r)) recs"
  have keys: "map fst ?kvs = map Key recs" by (simp add: comp_def)
  from dist have d': "distinct (map fst ?kvs)" unfolding keys .
  have len: "length recs = length (data_Secrets (body_Data d))"
    using dec by (simp add: list_all2_lengthD)
  have "getSecretsFromPayload E c (body_Data d) = (Some (map_of (rev ?kvs)), None)"
    using loop_all_decoded [OF dec, of Map.empty] by (simp add: getSecretsFromPayload_def)
  then have run: "getSecretsFromPayload E c (body_Data d) = (Some (map_of ?kvs), None)"
    by (simp add: map_of_rev_distinct [OF d'])
  have res: "GetSecrets E s c request
           = Some (Some \<lparr>Secrets = Some (map_of ?kvs), all_Body = Body response\<rparr>, None)"
    using perf parse run by (simp add: GetSecrets_def)
  have "card (dom (map_of ?kvs)) = length ?kvs"
    using distinct_card [OF d'] by (simp add: dom_map_of_conv_image_fst image_image)
  then have card: "card (dom (map_of ?kvs)) = length (data_Secrets (body_Data d))"
    using len by simp
  have look: "map_of ?kvs (Key r) = Some (Value r)" if "r \<in> set recs" for r
  proof -
    from that have "(Key r, Value r) \<in> set ?kvs" by auto
    with d' show ?thesis by (rule map_of_is_SomeI [OF _ _])
  qed
  from res card look show ?thesis by blast
qed

theorem GetSecrets_distinct_keys_witness:
  \<open>GetSecrets (mock_env (mock_response 200 ''application/json''
                 ''{"data":{"secrets":["enc1","enc2"]}}''))
      mock_store (mock_client ''k1'' ''p1'') \<lparr>all_Environment = ''prod'', all_Project = ''shop''\<rparr>
    = Some (Some \<lparr>Secrets = Some [''TOKEN'' \<mapsto> ''abc'', ''DB_URL'' \<mapsto> ''postgres://x''],
                   all_Body = Some ''{"data":{"secrets":["enc1","enc2"]}}''\<rparr>, None)
   \<and> card (dom [''TOKEN'' \<mapsto> ''abc'', ''DB_URL'' \<mapsto> ''postgres://x'']) = 2
   \<and> GetSecrets (mock_env (mock_response 200 ''application/json'' ''{"data":{"secrets":[]}}''))
      mock_store (mock_client ''k1'' ''p1'') \<lparr>all_Environment = ''prod'', all_Project = ''shop''\<rparr>
    = Some (Some \<lparr>Secrets = Some Map.empty, all_Body = Some ''{"data":{"secrets":[]}}''\<rparr>,
            None)\<close>
proof -
  let ?b2 = \<open>''{"data":{"secrets":["enc1","enc2"]}}''\<close>
  let ?b0 = \<open>''{"data":{"secrets":[]}}''\<close>
  let ?E2 = "mock_env (mock_response 200 ''application/json'' ?b2)"
  let ?E0 = "mock_env (mock_response 200 ''application/json'' ?b0)"
  let ?c = "mock_client ''k1'' ''p1''"
  let ?recs = "[\<lparr>Key = ''DB_URL'', Value = ''postgres://x''\<rparr>, \<lparr>Key = ''TOKEN'', Value = ''abc''\<rparr>]"
  have parse2: "json_Unmarshal_secretResponseBody ?E2
          (bytes_of (Body \<lparr>HTTPResponse = mock_response 200 ''application/json'' ?b2,
                            Body = Some ?b2\<rparr>)) = Inr (mock_body [''enc1'', ''enc2''])"
    by (simp add: bytes_of_def mock_env_def mock_json_Unmarshal_secretResponseBody_def)
  have dec2: "list_all2 (\<lambda>secret r. \<exists>p. aesdecrypt_Run ?E2 secret (OnboardbasePassCode ?c) = Inr p
                        \<and> json_Unmarshal_RawSecret ?E2 p = Inr r)
                (data_Secrets (body_Data (mock_body [''enc1'', ''enc2'']))) ?recs"
    by (simp add: mock_body_def mock_env_def mock_client_def mock_aesdecrypt_Run_def
        mock_json_Unmarshal_RawSecret_def)
  have dist2: "distinct (map Key ?recs)" by simp
  have parse0: "json_Unmarshal_secretResponseBody ?E0
          (bytes_of (Body \<lparr>HTTPResponse = mock_response 200 ''application/json'' ?b0,
                            Body = Some ?b0\<rparr>)) = Inr (mock_body [])"
    by (simp add: bytes_of_def mock_env_def mock_json_Unmarshal_secretResponseBody_def)
  have dec0: "list_all2 (\<lambda>secret r. \<exists>p. aesdecrypt_Run ?E0 secret (OnboardbasePassCode ?c) = Inr p
                        \<and> json_Unmarshal_RawSecret ?E0 p = Inr r)
                (data_Secrets (body_Data (mock_body []))) []"
    by (simp add: mock_body_def)
  have dist0: "distinct (map Key ([] :: RawSecret list))" by simp
  from GetSecrets_distinct_keys [OF mock_performRequest_ok parse2 dec2 dist2]
       GetSecrets_distinct_keys [OF mock_performRequest_ok parse0 dec0 dist0]
  show ?thesis by (simp add: mock_body_def)
qed

text \<open>
  C2. When the request succeeds and the body parses, and the requested name is not in the
  decrypted map (which is nil when the loop failed) or has the empty value there,
  \<^verbatim>\<open>GetSecret\<close> returns no response and an error whose message names the secret, the
  project and the environment. A response that \<^verbatim>\<open>GetSecret\<close> returns never has the
  empty value.
\<close>

theorem GetSecret_absent_not_found:
  assumes perf: "performRequest E s c ''/secrets'' ''GET'' [] (buildQueryParams request) (Some [])
                   = Some (Some response, None)"
    and parse: "json_Unmarshal_secretResponseBody E (bytes_of (Body response)) = Inr d"
  shows "((case fst (getSecretsFromPayload E c (body_Data d)) of
             None \<Rightarrow> True
           | Some kv \<Rightarrow> kv (Name request) = None \<or> kv (Name request) = Some [])
          \<longrightarrow> GetSecret E s c request
                = Some (None,
                        Some \<lparr>Err = None,
                              Message = ''secret '' @ Name request @ '' for project '' @ [CHR 0x27]
                                @ Project request @ [CHR 0x27] @ '' and environment ''
                                @ [CHR 0x27] @ Environment request @ [CHR 0x27] @ '' not found'',
                              Data = []\<rparr>))
       \<and> (\<forall>resp err. GetSecret E s c request = Some (Some resp, err)
            \<longrightarrow> secret_Value resp \<noteq> [])"
  using perf parse
  by (auto simp: GetSecret_def map_index_def Let_def split: option.splits if_splits)

theorem GetSecret_absent_not_found_witness:
  \<open>GetSecret (mock_env (mock_response 200 ''application/json'' ''{"data":{"secrets":["enc1"]}}''))
      mock_store (mock_client ''k1'' ''p1'')
      \<lparr>Environment = ''prod'', Project = ''shop'', Name = ''MISSING''\<rparr>
    = Some (None, Some \<lparr>Err = None,
                         Message = ''secret MISSING for project '' @ [CHR 0x27] @ ''shop''
                           @ [CHR 0x27] @ '' and environment '' @ [CHR 0x27] @ ''prod''
                           @ [CHR 0x27] @ '' not found'',
                         Data = []\<rparr>)
   \<and> GetSecret (mock_env (mock_response 200 ''application/json''
                  ''{"data":{"secrets":["enc1"]}}''))
      mock_store (mock_client ''k1'' ''p1'')
      \<lparr>Environment = [], Project = [], Name = ''DB_URL''\<rparr>
    = Some (Some \<lparr>secret_Name = ''DB_URL'', secret_Value = ''postgres://x''\<rparr>, None)
   \<and> secret_Value \<lparr>secret_Name = ''DB_URL'', secret_Value = ''postgres://x''\<rparr> \<noteq> []\<close>
proof -
  let ?b = \<open>''{"data":{"secrets":["enc1"]}}''\<close>
  let ?E = "mock_env (mock_response 200 ''application/json'' ?b)"
  let ?c = "mock_client ''k1'' ''p1''"
  let ?missing = "\<lparr>Environment = ''prod'', Project = ''shop'', Name = ''MISSING''\<rparr>"
  let ?present = "\<lparr>Environment = [], Project = [], Name = ''DB_URL''\<rparr>"
  have parse: "json_Unmarshal_secretResponseBody ?E
          (bytes_of (Body \<lparr>HTTPResponse = mock_response 200 ''application/json'' ?b,
                            Body = Some ?b\<rparr>)) = Inr (mock_body [''enc1''])"
    by (simp add: bytes_of_def mock_env_def mock_json_Unmarshal_secretResponseBody_def)
  have run: "getSecretsFromPayload ?E ?c (body_Data (mock_body [''enc1'']))
               = (Some [''DB_URL'' \<mapsto> ''postgres://x''], None)"
    by (simp add: getSecretsFromPayload_def mock_body_def mock_env_def mock_client_def
        mock_aesdecrypt_Run_def mock_json_Unmarshal_RawSecret_def)
  have absent: "(case fst (getSecretsFromPayload ?E ?c (body_Data (mock_body [''enc1'']))) of
                   None \<Rightarrow> True
                 | Some kv \<Rightarrow> kv (Name ?missing) = None \<or> kv (Name ?missing) = Some [])"
    by (simp add: run)
  have found: "GetSecret ?E mock_store ?c ?present
     = Some (Some \<lparr>secret_Name = ''DB_URL'', secret_Value = ''postgres://x''\<rparr>, None)"
    using parse by (simp add: GetSecret_def mock_performRequest_ok run map_index_def)
  from GetSecret_absent_not_found [OF mock_performRequest_ok parse, of ?missing]
       GetSecret_absent_not_found [OF mock_performRequest_ok parse, of ?present]
       absent found
  show ?thesis by simp
qed

text \<open>
  C1. A payload whose only envelope decrypts to a plaintext that is not JSON:
  \<^verbatim>\<open>getSecretsFromPayload\<close> returns the error that carries the plaintext, but
  \<^verbatim>\<open>GetSecrets\<close> drops that error and returns a response with the nil map and no error,
  and \<^verbatim>\<open>GetSecret\<close> drops it and reports the secret as not found.
\<close>

theorem GetSecrets_malformed_plaintext_dropped:
  \<open>getSecretsFromPayload
      (mock_env (mock_response 200 ''application/json'' ''{"data":{"secrets":["enc3"]}}''))
      (mock_client ''k1'' ''p1'') (body_Data (mock_body [''enc3'']))
    = (None, Some \<lparr>Err = Some ''invalid character'',
                    Message = ''unable to unmarshal secret payload'', Data = ''not json''\<rparr>)
   \<and> GetSecrets
      (mock_env (mock_response 200 ''application/json'' ''{"data":{"secrets":["enc3"]}}''))
      mock_store (mock_client ''k1'' ''p1'') \<lparr>all_Environment = [], all_Project = []\<rparr>
    = Some (Some \<lparr>Secrets = None, all_Body = Some ''{"data":{"secrets":["enc3"]}}''\<rparr>, None)
   \<and> GetSecret
      (mock_env (mock_response 200 ''application/json'' ''{"data":{"secrets":["enc3"]}}''))
      mock_store (mock_client ''k1'' ''p1'') \<lparr>Environment = [], Project = [], Name = ''DB_URL''\<rparr>
    = Some (None, Some \<lparr>Err = None,
                         Message = ''secret DB_URL for project '' @ [CHR 0x27, CHR 0x27]
                           @ '' and environment '' @ [CHR 0x27, CHR 0x27] @ '' not found'',
                         Data = []\<rparr>)\<close>
proof -
  let ?b = \<open>''{"data":{"secrets":["enc3"]}}''\<close>
  let ?E = "mock_env (mock_response 200 ''application/json'' ?b)"
  let ?c = "mock_client ''k1'' ''p1''"
  have parse: "json_Unmarshal_secretResponseBody ?E (bytes_of (Some ?b)) = Inr (mock_body [''enc3''])"
    by (simp add: bytes_of_def mock_env_def mock_json_Unmarshal_secretResponseBody_def)
  have run: "getSecretsFromPayload ?E ?c (body_Data (mock_body [''enc3'']))
    = (None, Some \<lparr>Err = Some ''invalid character'',
                    Message = ''unable to unmarshal secret payload'', Data = ''not json''\<rparr>)"
    by (simp add: getSecretsFromPayload_def mock_body_def mock_env_def mock_client_def
        mock_aesdecrypt_Run_def mock_json_Unmarshal_RawSecret_def)
  have all: "GetSecrets ?E mock_store ?c \<lparr>all_Environment = [], all_Project = []\<rparr>
    = Some (Some \<lparr>Secrets = None, all_Body = Some ?b\<rparr>, None)"
    by (simp add: GetSecrets_def mock_performRequest_ok parse run)
  have one: "GetSecret ?E mock_store ?c \<lparr>Environment = [], Project = [], Name = ''DB_URL''\<rparr>
    = Some (None, Some \<lparr>Err = None,
                         Message = ''secret DB_URL for project '' @ [CHR 0x27, CHR 0x27]
                           @ '' and environment '' @ [CHR 0x27, CHR 0x27] @ '' not found'',
                         Data = []\<rparr>)"
    by (simp add: GetSecret_def mock_performRequest_ok parse run map_index_def)
  from run all one show ?thesis by blast
qed

section \<open>Construction\<close>

text \<open>
  C3, as the code has it. \<^verbatim>\<open>NewOnboardbaseClient\<close> does not look at its arguments:
  whether it fails depends only on the parse of the fixed base URL, never on the API key or
  the passcode; the client it returns holds the two strings as given, empty or not; and the
  result does not depend on the network.
\<close>

theorem NewOnboardbaseClient_no_validation:
  "isl (NewOnboardbaseClient E s k p) = isl (url_Parse E ''https://public.onboardbase.com/api/v1'')
   \<and> (\<forall>c s'. NewOnboardbaseClient E s k p = Inr (c, s')
         \<longrightarrow> OnboardbaseAPIKey c = k \<and> OnboardbasePassCode c = p)
   \<and> (\<forall>net. NewOnboardbaseClient (E\<lparr>http_Do := net\<rparr>) s k p = NewOnboardbaseClient E s k p)"
  by (auto simp: NewOnboardbaseClient_def SetBaseURL_def TrimSuffix_def HasSuffix_def Let_def
      split: sum.splits)

theorem NewOnboardbaseClient_no_validation_witness:
  "isl (NewOnboardbaseClient (mock_env (mock_response 200 [] [])) [] [] ''p1'')
     = isl (url_Parse (mock_env (mock_response 200 [] [])) ''https://public.onboardbase.com/api/v1'')
   \<and> OnboardbaseAPIKey (mock_client [] ''p1'') = []
   \<and> OnboardbasePassCode (mock_client [] ''p1'') = ''p1''"
  using NewOnboardbaseClient_no_validation [of "mock_env (mock_response 200 [] [])" "[]" "[]" "''p1''"]
    mock_NewOnboardbaseClient [of "mock_response 200 [] []" "[]" "''p1''"]
  by blast

text \<open>
  C3, as stated, fails: with the empty API key and the empty passcode the constructor returns
  a client and no error.
\<close>

theorem NewOnboardbaseClient_empty_credentials:
  "NewOnboardbaseClient (mock_env (mock_response 200 [] [])) [] [] []
     = Inr (\<lparr>baseURL = Some 0, OnboardbaseAPIKey = [], VerifyTLS = True,
             UserAgent = ''onboardbase-external-secrets'', OnboardbasePassCode = [],
             httpClient = Some \<lparr>Timeout_seconds = 10, DisableKeepAlives = True,
                                TLS_MinVersion = 0x0303\<rparr>\<rparr>,
            [\<lparr>Scheme = ''https'', Opaque = [], Host = ''public.onboardbase.com'',
              Path = ''/api/v1'', RawQuery = [], Fragment = []\<rparr>])"
  by (simp add: NewOnboardbaseClient_def SetBaseURL_def mock_env_def mock_url_Parse_def
      HasPrefix_def HasSuffix_def TrimSuffix_def)

section \<open>Request headers\<close>

text \<open>
  The caller's headers are set one after the other on top of the defaults, so the header of a
  canonical key is the value of the last caller entry with that canonical key, or the default
  when there is none.
\<close>

lemma fold_Header_Set:
  "fold (\<lambda>(key, v) h. Header_Set E h key v) hdrs h
     = h ++ map_of (rev (map (\<lambda>(key, v). (CanonicalMIMEHeaderKey E key, [v])) hdrs))"
proof (induction hdrs arbitrary: h)
  case Nil
  then show ?case by simp
next
  case (Cons x hdrs)
  obtain key v where x: "x = (key, v)" by (cases x)
  let ?h' = "h(CanonicalMIMEHeaderKey E key \<mapsto> [v])"
  have step: "fold (\<lambda>(key, v) h. Header_Set E h key v) (x # hdrs) h
      = fold (\<lambda>(key, v) h. Header_Set E h key v) hdrs ?h'"
    by (simp add: x Header_Set_def)
  have eq: "?h' ++ map_of (rev (map (\<lambda>(key, v). (CanonicalMIMEHeaderKey E key, [v])) hdrs))
      = h ++ map_of (rev (map (\<lambda>(key, v). (CanonicalMIMEHeaderKey E key, [v])) (x # hdrs)))"
    by (auto simp: x map_of_append map_add_def fun_eq_iff split: option.splits)
  show ?case
    unfolding step Cons.IH [of ?h'] eq ..
qed

lemma map_of_headers_find:
  "map_of (map (\<lambda>(key, v). (CanonicalMIMEHeaderKey E key, [v])) hdrs) ck
     = map_option (\<lambda>(key, v). [v]) (find (\<lambda>(key, v). CanonicalMIMEHeaderKey E key = ck) hdrs)"
  by (induction hdrs) auto

lemma Header_Get_fold:
  "Header_Get E (fold (\<lambda>(key, v) h. Header_Set E h key v) hdrs h) k
     = (case find (\<lambda>(key, v). CanonicalMIMEHeaderKey E key = CanonicalMIMEHeaderKey E k) (rev hdrs) of
          None \<Rightarrow> Header_Get E h k
        | Some (key, v) \<Rightarrow> v)"
  using map_of_headers_find [of E "rev hdrs" "CanonicalMIMEHeaderKey E k"]
  by (simp add: fold_Header_Set Header_Get_def map_add_def rev_map split: option.splits)

lemma performRequest_request_Header:
  assumes "performRequest_request E s c path method hdrs params body = Some (Inr req)"
  shows "\<exists>h. Header req = fold (\<lambda>(key, v) h. Header_Set E h key v) hdrs
                 (Header_Set E (Header_Set E h ''user-agent'' (UserAgent c)) ''api_key''
                    (OnboardbaseAPIKey c))"
  using assms
  apply (auto simp: performRequest_request_def Let_def split: option.splits sum.splits if_splits)
             apply (rule exI, rule refl)+
  done

text \<open>
  C8, as the code has it. The caller's headers are applied after all the defaults and no
  default is protected: for every key, when the caller supplies headers with the same
  canonical key, the request carries the value of the last of them, also for \<open>user-agent\<close>
  and \<open>api_key\<close>. When the caller supplies none for \<open>api_key\<close>, the request carries the
  client's API key; when the caller supplies none for \<open>user-agent\<close>, it carries the
  client's user agent.
\<close>

theorem performRequest_caller_headers_win:
  assumes "performRequest_request E s c path method hdrs params body = Some (Inr req)"
  shows "(\<forall>k key v. find (\<lambda>(key, v). CanonicalMIMEHeaderKey E key = CanonicalMIMEHeaderKey E k)
                      (rev hdrs) = Some (key, v)
            \<longrightarrow> Header_Get E (Header req) k = v)
       \<and> (find (\<lambda>(key, v). CanonicalMIMEHeaderKey E key = CanonicalMIMEHeaderKey E ''api_key'')
             (rev hdrs) = None
            \<longrightarrow> Header_Get E (Header req) ''api_key'' = OnboardbaseAPIKey c)
       \<and> (find (\<lambda>(key, v). CanonicalMIMEHeaderKey E key = CanonicalMIMEHeaderKey E ''user-agent'')
             (rev hdrs) = None
          \<and> CanonicalMIMEHeaderKey E ''user-agent'' \<noteq> CanonicalMIMEHeaderKey E ''api_key''
            \<longrightarrow> Header_Get E (Header req) ''user-agent'' = UserAgent c)"
proof -
  from performRequest_request_Header [OF assms] obtain h where
    h: "Header req = fold (\<lambda>(key, v) h. Header_Set E h key v) hdrs
                 (Header_Set E (Header_Set E h ''user-agent'' (UserAgent c)) ''api_key''
                    (OnboardbaseAPIKey c))" by blast
  show ?thesis
    by (simp add: h Header_Get_fold) (simp add: Header_Get_def Header_Set_def)
qed

theorem performRequest_caller_headers_win_witness:
  "Header_Get (mock_env (mock_response 200 [] []))
     (Header ((mock_request ''k1'' [])
        \<lparr>Header := fold (\<lambda>(key, v) h. Header_Set (mock_env (mock_response 200 [] [])) h key v)
                     [(''api_key'', ''other'')] (Header (mock_request ''k1'' []))\<rparr>)) ''api_key''
     = ''other''
   \<and> Header_Get (mock_env (mock_response 200 [] []))
     (Header ((mock_request ''k1'' [])
        \<lparr>Header := fold (\<lambda>(key, v) h. Header_Set (mock_env (mock_response 200 [] [])) h key v)
                     [(''api_key'', ''other'')] (Header (mock_request ''k1'' []))\<rparr>)) ''user-agent''
     = UserAgent (mock_client ''k1'' ''p1'')"
proof -
  let ?E = "mock_env (mock_response 200 [] [])"
  have canon: "CanonicalMIMEHeaderKey ?E = mock_CanonicalMIMEHeaderKey"
    by (simp add: mock_env_def)
  from performRequest_caller_headers_win
         [OF mock_performRequest_request_headers
               [of "mock_response 200 [] []" "''k1''" "''p1''" "[(''api_key'', ''other'')]" "[]"]]
  show ?thesis
    by (simp add: canon mock_CanonicalMIMEHeaderKey_def)
qed

text \<open>
  C8, as stated, fails: a caller that passes \<open>api_key\<close> and \<open>user-agent\<close> headers replaces
  both identity headers of the request.
\<close>

theorem performRequest_identity_headers_overridden:
  "(case performRequest_request (mock_env (mock_response 200 [] [])) mock_store
           (mock_client ''k1'' ''p1'') ''/secrets'' ''GET''
           [(''api_key'', ''other''), (''user-agent'', ''curl'')] [] (Some []) of
      Some (Inr req) \<Rightarrow>
        Header_Get (mock_env (mock_response 200 [] [])) (Header req) ''api_key'' = ''other''
        \<and> Header_Get (mock_env (mock_response 200 [] [])) (Header req) ''user-agent'' = ''curl''
        \<and> OnboardbaseAPIKey (mock_client ''k1'' ''p1'') = ''k1''
        \<and> UserAgent (mock_client ''k1'' ''p1'') = ''onboardbase-external-secrets''
    | _ \<Rightarrow> False)"
  by (simp add: mock_performRequest_request_headers)
     (simp add: Header_Get_def Header_Set_def mock_request_def mock_env_def
      mock_CanonicalMIMEHeaderKey_def mock_client_def)

section \<open>The base URL accessor\<close>

lemma performRequest_request_store:
  assumes "baseURL c = Some a" "a < length s" "a < length t" "s ! a = t ! a"
  shows "performRequest_request E s c path method hdrs params body
       = performRequest_request E t c path method hdrs params body"
  using assms by (simp add: performRequest_request_def BaseURL_def)

text \<open>
  C9. \<^verbatim>\<open>BaseURL\<close> returns the address of a new variable that holds a copy of the client's
  base URL. Whatever is written through the returned pointer, the URL the client points to
  and every other URL allocated before are as they were, and \<^verbatim>\<open>performRequest\<close> returns
  what it returned before.
\<close>

theorem BaseURL_defensive_copy:
  assumes "BaseURL s c = Some (p, s')"
  shows "\<exists>a. baseURL c = Some a \<and> a < length s \<and> p \<noteq> a \<and> s' ! p = s ! a
           \<and> (\<forall>u. (s'[p := u]) ! a = s ! a)
           \<and> (\<forall>u i. i < length s \<longrightarrow> (s'[p := u]) ! i = s ! i)
           \<and> (\<forall>u E path method hdrs params body.
                 performRequest E (s'[p := u]) c path method hdrs params body
                   = performRequest E s c path method hdrs params body)"
proof -
  from assms obtain a where a: "baseURL c = Some a" "a < length s" "p = length s"
    "s' = s @ [s ! a]"
    by (auto simp: BaseURL_def split: option.splits if_splits)
  have same: "(s'[p := u]) ! i = s ! i" if "i < length s" for u i
    using that a by (simp add: nth_append)
  have req: "performRequest_request E (s'[p := u]) c path meth hdrs params body
       = performRequest_request E s c path meth hdrs params body"
    for u E path meth hdrs params body
    by (rule performRequest_request_store [OF a(1)]) (use a same in auto)
  have "performRequest E (s'[p := u]) c path meth hdrs params body
                   = performRequest E s c path meth hdrs params body"
    for u E path meth hdrs params body
    by (simp add: performRequest_def req)
  with a same show ?thesis by auto
qed

theorem BaseURL_defensive_copy_witness:
  "(mock_store @ [mock_store ! 0])
      [1 := \<lparr>Scheme = ''http'', Opaque = [], Host = ''attacker.example'', Path = [],
              RawQuery = [], Fragment = []\<rparr>] ! 0 = mock_store ! 0
   \<and> performRequest (mock_env (mock_response 200 [] []))
       ((mock_store @ [mock_store ! 0])
          [1 := \<lparr>Scheme = ''http'', Opaque = [], Host = ''attacker.example'', Path = [],
                  RawQuery = [], Fragment = []\<rparr>])
       (mock_client ''k1'' ''p1'') ''/secrets'' ''GET'' [] [] (Some [])
     = performRequest (mock_env (mock_response 200 [] [])) mock_store
         (mock_client ''k1'' ''p1'') ''/secrets'' ''GET'' [] [] (Some [])"
proof -
  have copy: "BaseURL mock_store (mock_client ''k1'' ''p1'') = Some (1, mock_store @ [mock_store ! 0])"
    by (simp add: BaseURL_def mock_store_def mock_client_def)
  have a: "baseURL (mock_client ''k1'' ''p1'') = Some 0"
    by (simp add: mock_client_def)
  from BaseURL_defensive_copy [OF copy] a show ?thesis by auto
qed

end
